theory Spec2Isabelle
  imports Main "HOL-Library.Dlist"
begin

section \<open>JavaScript values used by the network controller\<close>

text \<open>
  A JavaScript \<open>Set<string>\<close> keeps its elements in insertion order and never holds the
  same element twice: a distinct list. \<open>Set.prototype.add\<close> appends an element that is
  not yet present and does nothing otherwise; \<open>Array.from\<close> lists the elements in
  insertion order.
\<close>

definition Set_new :: "'a dlist" where
  "Set_new = Dlist.empty"

definition Set_add :: "'a \<Rightarrow> 'a dlist \<Rightarrow> 'a dlist" where
  "Set_add x s = (if x \<in> set (list_of_dlist s) then s else Dlist (list_of_dlist s @ [x]))"

definition Array_from :: "'a dlist \<Rightarrow> 'a list" where
  "Array_from s = list_of_dlist s"

text \<open>The nullish coalescing operator \<open>a ?? b\<close>; an absent optional property is \<open>None\<close>.\<close>

definition nullish :: "'a option \<Rightarrow> 'a \<Rightarrow> 'a" where
  "nullish a b = (case a of Some v \<Rightarrow> v | None \<Rightarrow> b)"

text \<open>
  The hub registry is a plain object created by the literal \<open>{}\<close>: its own properties are
  a map from keys to values, and its prototype is \<open>Object.prototype\<close>. Both the \<open>in\<close>
  operator and an indexed read follow the prototype chain, so the property names of
  \<open>Object.prototype\<close> are found in every such object.
\<close>

definition Object_prototype_keys :: "string list" where
  "Object_prototype_keys =
     [''constructor'', ''hasOwnProperty'', ''isPrototypeOf'', ''propertyIsEnumerable'',
      ''toLocaleString'', ''toString'', ''valueOf'', ''__proto__'',
      ''__defineGetter__'', ''__defineSetter__'', ''__lookupGetter__'', ''__lookupSetter__'']"

datatype 'v js_value = Undefined | Inherited string | Own 'v

definition js_in :: "string \<Rightarrow> (string \<rightharpoonup> 'v) \<Rightarrow> bool" where
  "js_in k obj = (obj k \<noteq> None \<or> k \<in> set Object_prototype_keys)"

definition js_get :: "(string \<rightharpoonup> 'v) \<Rightarrow> string \<Rightarrow> 'v js_value" where
  "js_get obj k =
     (case obj k of
        Some v \<Rightarrow> Own v
      | None \<Rightarrow> if k \<in> set Object_prototype_keys then Inherited k else Undefined)"

text \<open>
  An assignment \<open>obj[k] = v\<close> defines an own property. (For the key \<open>__proto__\<close> it would
  call the prototype setter instead; the controller assigns only under a key for which
  \<open>in\<close> was false, so that case is never reached and the map is left as it is.)
\<close>

definition js_put :: "(string \<rightharpoonup> 'v) \<Rightarrow> string \<Rightarrow> 'v \<Rightarrow> (string \<rightharpoonup> 'v)" where
  "js_put obj k v = (if k = ''__proto__'' then obj else obj(k \<mapsto> v))"

text \<open>\<open>String.prototype.toLowerCase\<close> on the ASCII letters.\<close>

definition toLowerCase_char :: "char \<Rightarrow> char" where
  "toLowerCase_char c =
     (let n = (of_char c :: nat) in if 65 \<le> n \<and> n \<le> 90 then char_of (n + 32) else c)"

definition toLowerCase :: "string \<Rightarrow> string" where
  "toLowerCase s = map toLowerCase_char s"


section \<open>Constructs, stacks and the collaborators of the controller\<close>

text \<open>
  \<open>Stack.of(scope)\<close> yields the stack that owns a construct; its \<open>account\<close> and \<open>region\<close>
  are strings, either concrete identifiers or encoded tokens. \<open>scope.node.addr\<close> is the
  address of the construct in the tree.
\<close>

record Stack =
  account :: string
  region :: string

record IConstruct =
  stack_of :: Stack
  node_addr :: string

text \<open>
  Modelled from the spec: \<open>FlowLogFormat\<close>, the enumerated log-record schema of the
  repository's \<open>ec2\<close> module. The controller names only its member \<open>V5\<close>; any other
  format is identified by its name.
\<close>

datatype FlowLogFormat = V5 | NamedFormat string

text \<open>
  Modelled from the spec: the log sink. A bucket is either supplied by the caller or the
  \<open>FlowLogsBucket\<close> of the repository's \<open>s3-buckets\<close> module, which the controller
  creates with a bucket name and a format.
\<close>

datatype IBucket = SuppliedBucket string | FlowLogsBucket string FlowLogFormat

datatype FlowLogDestination = toS3 IBucket

record FlowLogOptions =
  destination :: FlowLogDestination
  logFormatDefinition :: FlowLogFormat

text \<open>
  Modelled from the spec: \<open>IpAddressManager\<close>, the address allocator. Its contract is
  \<open>allocate(scope, key, {netmask}) -> AddressRangeProvider\<close> and
  \<open>registerManual(scope, key, cidr) -> void\<close>; the allocation algorithm is internal to it.
  The model keeps the ledger of the requests it has received, and the provider it returns
  stands for the request that produced it.
\<close>

record VpcConfigurationRequest =
  request_scope :: IConstruct
  request_id :: string
  request_netmask :: int

datatype AddressRangeProvider = ProviderFor VpcConfigurationRequest

record IpAddressManager =
  allocations :: "VpcConfigurationRequest list"
  manualCidrs :: "(IConstruct \<times> string \<times> string) list"

text \<open>Modelled from the spec: a new \<open>IpAddressManager\<close> has received no request.\<close>

definition IpAddressManager_new :: IpAddressManager where
  "IpAddressManager_new = \<lparr>allocations = [], manualCidrs = []\<rparr>"

text \<open>
  Modelled from the spec: \<open>IpAddressManager.getVpcConfiguration\<close>, the allocation
  request. It records the request and returns the provider for it.
\<close>

definition getVpcConfiguration ::
  "IpAddressManager \<Rightarrow> IConstruct \<Rightarrow> string \<Rightarrow> int \<Rightarrow> AddressRangeProvider \<times> IpAddressManager" where
  "getVpcConfiguration am scope id' nm =
     (let req = \<lparr>request_scope = scope, request_id = id', request_netmask = nm\<rparr>
      in (ProviderFor req, am\<lparr>allocations := allocations am @ [req]\<rparr>))"

text \<open>
  Modelled from the spec: \<open>IpAddressManager.registerCidr\<close>, the manual registration of
  an address range. It records the range.
\<close>

definition IpAddressManager_registerCidr ::
  "IpAddressManager \<Rightarrow> IConstruct \<Rightarrow> string \<Rightarrow> string \<Rightarrow> IpAddressManager" where
  "IpAddressManager_registerCidr am scope id' cidr =
     am\<lparr>manualCidrs := manualCidrs am @ [(scope, id', cidr)]\<rparr>"


section \<open>Errors\<close>

text \<open>
  The controller throws \<open>Error\<close> objects that differ in their message. They are named as
  the specification names them: the three "fully qualified environment" messages are
  \<open>UnboundEnvironmentError\<close>, "A hub network already exists for the region" is
  \<open>DuplicateHubError\<close>, "A hub network must be registered for the" is
  \<open>MissingHubError\<close>, and the two "cannot contain tokens" messages are
  \<open>SymbolicIdentifierError\<close>. \<open>TypeError\<close> is what the JavaScript runtime throws when a
  value that is not a function is called.
\<close>

datatype error =
    UnboundEnvironmentError
  | DuplicateHubError string
  | MissingHubError string
  | SymbolicIdentifierError
  | TypeError


section \<open>Hubs and spokes\<close>

text \<open>
  Modelled from the spec: \<open>FourTierNetworkHub\<close> and \<open>FourTierNetworkSpoke\<close>. The
  properties are those the controller passes. A network keeps the scope it was created
  in, its identifier and its properties; a hub also keeps the collection of the spokes
  attached to it.
\<close>

record FourTierNetworkSpokeProps =
  spoke_availabilityZones :: "string list option"
  spoke_cidr :: AddressRangeProvider
  spoke_flowLogs :: "(string \<times> FlowLogOptions) list"
  spoke_maxAzs :: "int option"

record FourTierNetworkSpoke =
  spoke_scope :: IConstruct
  spoke_id :: string
  spoke_props :: FourTierNetworkSpokeProps

record FourTierNetworkHubProps =
  hub_availabilityZones :: "string list option"
  hub_cidr :: AddressRangeProvider
  hub_defaultTransitGatewayRouteTable :: "string option"
  hub_flowLogs :: "(string \<times> FlowLogOptions) list"
  hub_maxAzs :: "int option"

record FourTierNetworkHub =
  hub_scope :: IConstruct
  hub_id :: string
  hub_props :: FourTierNetworkHubProps
  hub_spokes :: "FourTierNetworkSpoke list"

text \<open>
  Modelled from the spec: the region of a network. A construct lives in the region of
  the stack that owns the scope it was created in.
\<close>

definition hub_region :: "FourTierNetworkHub \<Rightarrow> string" where
  "hub_region h = region (stack_of (hub_scope h))"

text \<open>Modelled from the spec: the region of a spoke, as for a hub.\<close>

definition spoke_region :: "FourTierNetworkSpoke \<Rightarrow> string" where
  "spoke_region s = region (stack_of (spoke_scope s))"

text \<open>
  Modelled from the spec: the constructor of \<open>FourTierNetworkHub\<close>. A new hub has no
  spoke attached.
\<close>

definition FourTierNetworkHub_new ::
  "IConstruct \<Rightarrow> string \<Rightarrow> FourTierNetworkHubProps \<Rightarrow> FourTierNetworkHub" where
  "FourTierNetworkHub_new scope id' props =
     \<lparr>hub_scope = scope, hub_id = id', hub_props = props, hub_spokes = []\<rparr>"

text \<open>
  Modelled from the spec: \<open>FourTierNetworkHub.addSpoke\<close>, to which the controller
  delegates the creation of a spoke. The hub creates the spoke in the given scope with
  the given properties and owns it: the spoke joins the hub's collection of attached
  spokes.
\<close>

definition FourTierNetworkHub_addSpoke ::
  "FourTierNetworkHub \<Rightarrow> IConstruct \<Rightarrow> string \<Rightarrow> FourTierNetworkSpokeProps
     \<Rightarrow> FourTierNetworkSpoke \<times> FourTierNetworkHub" where
  "FourTierNetworkHub_addSpoke h scope id' props =
     (let s = \<lparr>spoke_scope = scope, spoke_id = id', spoke_props = props\<rparr>
      in (s, h\<lparr>hub_spokes := hub_spokes h @ [s]\<rparr>))"


section \<open>The network controller\<close>

record NetworkControllerProps =
  props_defaultNetmask :: "int option"
  props_flowLogBucket :: "IBucket option"
  props_flowLogFormat :: "FlowLogFormat option"

record AddNetworkOptions =
  availabilityZones :: "string list option"
  maxAzs :: "int option"
  netmask :: "int option"

record AddHubOptions = AddNetworkOptions +
  defaultTransitGatewayRouteTable :: "string option"

text \<open>
  The fields \<open>priv_hubs\<close>, \<open>priv_registeredAccounts\<close> and \<open>priv_registeredRegions\<close> are the
  private \<open>_hubs\<close>, \<open>_registeredAccounts\<close> and \<open>_registeredRegions\<close>; \<open>stack\<close> is the stack
  that owns the controller.
\<close>

record NetworkController =
  stack :: Stack
  priv_hubs :: "string \<rightharpoonup> FourTierNetworkHub"
  priv_registeredAccounts :: "string dlist"
  priv_registeredRegions :: "string dlist"
  defaultNetmask :: int
  flowLogFormat :: FlowLogFormat
  addressManager :: IpAddressManager
  flowLogBucket :: IBucket
  globalNetwork :: string

definition registeredAccounts :: "NetworkController \<Rightarrow> string list" where
  "registeredAccounts this = Array_from (priv_registeredAccounts this)"

definition registeredRegions :: "NetworkController \<Rightarrow> string list" where
  "registeredRegions this = Array_from (priv_registeredRegions this)"

text \<open>
  \<open>Token.isUnresolved\<close> belongs to the CDK library: it tells whether a string encodes a
  value that is only known at deployment. Every operation takes it as its first argument.
  \<open>Names.uniqueId(this)\<close>, which the library computes from the path of the construct, is
  an argument of the constructor.

  Every operation returns its outcome together with the controller as the call leaves
  it, so that what a call has changed before it throws stays visible.
\<close>

definition NetworkController_new ::
  "(string \<Rightarrow> bool) \<Rightarrow> string \<Rightarrow> IConstruct \<Rightarrow> string \<Rightarrow> NetworkControllerProps
     \<Rightarrow> error + NetworkController" where
  "NetworkController_new isUnresolved uniqueId scope id' props =
     (let st = stack_of scope in
      if isUnresolved (account st) \<or> isUnresolved (region st) then Inl UnboundEnvironmentError
      else
        let fmt = nullish (props_flowLogFormat props) V5 in
        Inr \<lparr>stack = st,
             priv_hubs = Map.empty,
             priv_registeredAccounts = Set_new,
             priv_registeredRegions = Set_new,
             defaultNetmask = nullish (props_defaultNetmask props) 16,
             flowLogFormat = fmt,
             addressManager = IpAddressManager_new,
             flowLogBucket =
               nullish (props_flowLogBucket props) (FlowLogsBucket (toLowerCase uniqueId) fmt),
             globalNetwork = ''global-network''\<rparr>)"

definition registerAccount ::
  "(string \<Rightarrow> bool) \<Rightarrow> NetworkController \<Rightarrow> string \<Rightarrow> (error + unit) \<times> NetworkController" where
  "registerAccount isUnresolved this acct =
     (if acct = account (stack this) then (Inr (), this)
      else if acct \<in> set (registeredAccounts this) then (Inr (), this)
      else if isUnresolved acct then (Inl SymbolicIdentifierError, this)
      else (Inr (), this\<lparr>priv_registeredAccounts := Set_add acct (priv_registeredAccounts this)\<rparr>))"

definition registerRegion ::
  "(string \<Rightarrow> bool) \<Rightarrow> NetworkController \<Rightarrow> string \<Rightarrow> (error + unit) \<times> NetworkController" where
  "registerRegion isUnresolved this reg =
     (if reg = region (stack this) then (Inr (), this)
      else if reg \<in> set (registeredRegions this) then (Inr (), this)
      else if isUnresolved reg then (Inl SymbolicIdentifierError, this)
      else (Inr (), this\<lparr>priv_registeredRegions := Set_add reg (priv_registeredRegions this)\<rparr>))"

text \<open>The default flow-log rule that the controller gives to the networks it creates.\<close>

definition defaultFlowLogs :: "NetworkController \<Rightarrow> (string \<times> FlowLogOptions) list" where
  "defaultFlowLogs this =
     [(''flow-log-default'',
       \<lparr>destination = toS3 (flowLogBucket this), logFormatDefinition = flowLogFormat this\<rparr>)]"

definition addHub ::
  "(string \<Rightarrow> bool) \<Rightarrow> NetworkController \<Rightarrow> IConstruct \<Rightarrow> string \<Rightarrow> AddHubOptions
     \<Rightarrow> (error + FourTierNetworkHub) \<times> NetworkController" where
  "addHub isUnresolved this scope id' options =
     (let scopeStack = stack_of scope;
          scopeAccount = account scopeStack;
          scopeRegion = region scopeStack
      in
      if isUnresolved scopeAccount \<or> isUnresolved scopeRegion
      then (Inl UnboundEnvironmentError, this)
      else if js_in scopeRegion (priv_hubs this)
      then (Inl (DuplicateHubError scopeRegion), this)
      else
        case registerAccount isUnresolved this scopeAccount of
          (Inl e, this1) \<Rightarrow> (Inl e, this1)
        | (Inr _, this1) \<Rightarrow>
            (case registerRegion isUnresolved this1 scopeRegion of
               (Inl e, this2) \<Rightarrow> (Inl e, this2)
             | (Inr _, this2) \<Rightarrow>
                 let nm = nullish (netmask options) (defaultNetmask this2);
                     (provider, am) = getVpcConfiguration (addressManager this2) scope id' nm;
                     this3 = this2\<lparr>addressManager := am\<rparr>;
                     hub = FourTierNetworkHub_new scope id'
                             \<lparr>hub_availabilityZones = availabilityZones options,
                              hub_cidr = provider,
                              hub_defaultTransitGatewayRouteTable =
                                defaultTransitGatewayRouteTable options,
                              hub_flowLogs = defaultFlowLogs this3,
                              hub_maxAzs = maxAzs options\<rparr>
                 in (Inr hub, this3\<lparr>priv_hubs := js_put (priv_hubs this3) scopeRegion hub\<rparr>)))"

text \<open>
  In \<open>addSpoke\<close> the registry is read before the checks. A value inherited from
  \<open>Object.prototype\<close> is not \<open>undefined\<close>, so the call goes on with it; it has no
  \<open>addSpoke\<close> method, and calling that throws a \<open>TypeError\<close> after the registrations and
  the allocation request have been made. The registry holds the hub object itself, so
  the spoke that the hub attaches to itself shows in the registry.
\<close>

definition addSpoke ::
  "(string \<Rightarrow> bool) \<Rightarrow> NetworkController \<Rightarrow> IConstruct \<Rightarrow> string \<Rightarrow> AddNetworkOptions
     \<Rightarrow> (error + FourTierNetworkSpoke) \<times> NetworkController" where
  "addSpoke isUnresolved this scope id' options =
     (let scopeStack = stack_of scope;
          scopeAccount = account scopeStack;
          scopeRegion = region scopeStack;
          hub = js_get (priv_hubs this) scopeRegion
      in
      if isUnresolved scopeAccount \<or> isUnresolved scopeRegion
      then (Inl UnboundEnvironmentError, this)
      else if hub = Undefined
      then (Inl (MissingHubError scopeRegion), this)
      else
        case registerAccount isUnresolved this scopeAccount of
          (Inl e, this1) \<Rightarrow> (Inl e, this1)
        | (Inr _, this1) \<Rightarrow>
            (case registerRegion isUnresolved this1 scopeRegion of
               (Inl e, this2) \<Rightarrow> (Inl e, this2)
             | (Inr _, this2) \<Rightarrow>
                 let nm = nullish (netmask options) (defaultNetmask this2);
                     (provider, am) =
                       getVpcConfiguration (addressManager this2) scope
                         (id' @ ''-'' @ node_addr scope) nm;
                     this3 = this2\<lparr>addressManager := am\<rparr>
                 in
                 (case hub of
                    Own h \<Rightarrow>
                      let (spoke, h') =
                            FourTierNetworkHub_addSpoke h scope id'
                              \<lparr>spoke_availabilityZones = availabilityZones options,
                               spoke_cidr = provider,
                               spoke_flowLogs = defaultFlowLogs this3,
                               spoke_maxAzs = maxAzs options\<rparr>
                      in (Inr spoke, this3\<lparr>priv_hubs := (priv_hubs this3)(scopeRegion \<mapsto> h')\<rparr>)
                  | _ \<Rightarrow> (Inl TypeError, this3))))"

definition registerCidr ::
  "NetworkController \<Rightarrow> IConstruct \<Rightarrow> string \<Rightarrow> string \<Rightarrow> (error + unit) \<times> NetworkController" where
  "registerCidr this scope id' cidr =
     (Inr (),
      this\<lparr>addressManager := IpAddressManager_registerCidr (addressManager this) scope id' cidr\<rparr>)"

text \<open>
  A sequence of calls on one controller. Each call leaves the controller in the state
  its second component gives, whether it returned or threw.
\<close>

datatype operation =
    AddHub IConstruct string AddHubOptions
  | AddSpoke IConstruct string AddNetworkOptions
  | RegisterAccount string
  | RegisterRegion string
  | RegisterCidr IConstruct string string

fun exec :: "(string \<Rightarrow> bool) \<Rightarrow> NetworkController \<Rightarrow> operation \<Rightarrow> NetworkController" where
  "exec isUnresolved this (AddHub scope id' options) = snd (addHub isUnresolved this scope id' options)"
| "exec isUnresolved this (AddSpoke scope id' options) = snd (addSpoke isUnresolved this scope id' options)"
| "exec isUnresolved this (RegisterAccount acct) = snd (registerAccount isUnresolved this acct)"
| "exec isUnresolved this (RegisterRegion reg) = snd (registerRegion isUnresolved this reg)"
| "exec isUnresolved this (RegisterCidr scope id' cidr) = snd (registerCidr this scope id' cidr)"

definition run :: "(string \<Rightarrow> bool) \<Rightarrow> NetworkController \<Rightarrow> operation list \<Rightarrow> NetworkController" where
  "run isUnresolved this ops = foldl (exec isUnresolved) this ops"

text \<open>The token test used in the worked examples: the CDK encodes a token in a string
  that starts with a marker.\<close>

definition tokenMarker :: "string \<Rightarrow> bool" where
  "tokenMarker s = (take 8 s = ''${Token['')"


text \<open>
  The controller as \<open>addHub\<close> and \<open>addSpoke\<close> find it after their two registration
  calls.
\<close>

definition registered :: "(string \<Rightarrow> bool) \<Rightarrow> NetworkController \<Rightarrow> IConstruct \<Rightarrow> NetworkController" where
  "registered isUnresolved this scope =
     snd (registerRegion isUnresolved
            (snd (registerAccount isUnresolved this (account (stack_of scope))))
            (region (stack_of scope)))"


section \<open>A worked example\<close>

text \<open>
  A controller deployed in account 111111111111 and region us-east-1 with default
  properties, and scopes of other stacks: one in us-west-2, one in us-west-2 whose
  account is a token, one in eu-west-1, and one whose region is named \<open>toString\<close>.
\<close>

definition example_scope :: IConstruct where
  "example_scope =
     \<lparr>stack_of = \<lparr>account = ''111111111111'', region = ''us-east-1''\<rparr>, node_addr = ''c80a11''\<rparr>"

definition example_props :: NetworkControllerProps where
  "example_props =
     \<lparr>props_defaultNetmask = None, props_flowLogBucket = None, props_flowLogFormat = None\<rparr>"

definition example_controller :: NetworkController where
  "example_controller =
     \<lparr>stack = \<lparr>account = ''111111111111'', region = ''us-east-1''\<rparr>,
      priv_hubs = Map.empty,
      priv_registeredAccounts = Set_new,
      priv_registeredRegions = Set_new,
      defaultNetmask = 16,
      flowLogFormat = V5,
      addressManager = IpAddressManager_new,
      flowLogBucket = FlowLogsBucket ''networka1b2'' V5,
      globalNetwork = ''global-network''\<rparr>"

definition scope_west :: IConstruct where
  "scope_west =
     \<lparr>stack_of = \<lparr>account = ''222222222222'', region = ''us-west-2''\<rparr>, node_addr = ''c8b722''\<rparr>"

definition scope_west_token :: IConstruct where
  "scope_west_token =
     \<lparr>stack_of = \<lparr>account = ''${Token[AWS.AccountId.0]}'', region = ''us-west-2''\<rparr>,
      node_addr = ''c8c933''\<rparr>"

definition scope_eu :: IConstruct where
  "scope_eu =
     \<lparr>stack_of = \<lparr>account = ''333333333333'', region = ''eu-west-1''\<rparr>, node_addr = ''c8d144''\<rparr>"

definition scope_toString :: IConstruct where
  "scope_toString =
     \<lparr>stack_of = \<lparr>account = ''222222222222'', region = ''toString''\<rparr>, node_addr = ''c8e355''\<rparr>"

definition no_options :: AddNetworkOptions where
  "no_options = \<lparr>availabilityZones = None, maxAzs = None, netmask = None\<rparr>"

definition no_hub_options :: AddHubOptions where
  "no_hub_options =
     \<lparr>availabilityZones = None, maxAzs = None, netmask = None,
      defaultTransitGatewayRouteTable = None\<rparr>"

definition hub_options_24 :: AddHubOptions where
  "hub_options_24 =
     \<lparr>availabilityZones = None, maxAzs = None, netmask = Some 24,
      defaultTransitGatewayRouteTable = None\<rparr>"


section \<open>Invariants of the controller\<close>

text \<open>
  The tracker invariant: the two sets hold neither the controller's own account or
  region nor an unresolved identifier.
\<close>

definition tracker_ok :: "(string \<Rightarrow> bool) \<Rightarrow> NetworkController \<Rightarrow> bool" where
  "tracker_ok isUnresolved this =
     (account (stack this) \<notin> set (registeredAccounts this)
      \<and> region (stack this) \<notin> set (registeredRegions this)
      \<and> (\<forall>a \<in> set (registeredAccounts this). \<not> isUnresolved a)
      \<and> (\<forall>r \<in> set (registeredRegions this). \<not> isUnresolved r))"

text \<open>
  The registry invariant: a hub is stored under the region of the stack it was created
  in, and never under a property name of \<open>Object.prototype\<close>.
\<close>

definition registry_ok :: "NetworkController \<Rightarrow> bool" where
  "registry_ok this =
     (\<forall>r h. priv_hubs this r = Some h \<longrightarrow> hub_region h = r \<and> r \<notin> set Object_prototype_keys)"

text \<open>The fields that are assigned once, in the constructor.\<close>

definition fixed_fields :: "NetworkController \<Rightarrow> Stack \<times> int \<times> FlowLogFormat \<times> IBucket" where
  "fixed_fields this = (stack this, defaultNetmask this, flowLogFormat this, flowLogBucket this)"

text \<open>
  A hub object keeps its identity while spokes are attached to it: its scope, its
  identifier and the properties it was created with stay the same.
\<close>

definition same_hub :: "FourTierNetworkHub \<Rightarrow> FourTierNetworkHub \<Rightarrow> bool" where
  "same_hub h h' = (hub_scope h' = hub_scope h \<and> hub_id h' = hub_id h \<and> hub_props h' = hub_props h)"

definition holds_hub :: "NetworkController \<Rightarrow> string \<Rightarrow> FourTierNetworkHub \<Rightarrow> bool" where
  "holds_hub this r h = (case priv_hubs this r of Some h' \<Rightarrow> same_hub h h' | None \<Rightarrow> False)"


text \<open>
  The hub that \<open>addHub\<close> creates for \<open>scope_west\<close> with the default netmask, the same
  with netmask 24, the controller after that call, the spoke that \<open>addSpoke\<close> then
  creates in \<open>scope_west\<close>, and the controller after it. \<open>example_ops\<close> is a sequence of
  calls that registers the controller's own account and region explicitly, adds the hub
  and the spoke, and tries to register a token.
\<close>

definition example_request :: VpcConfigurationRequest where
  "example_request = \<lparr>request_scope = scope_west, request_id = ''hub'', request_netmask = 16\<rparr>"

definition example_flowLogs :: "(string \<times> FlowLogOptions) list" where
  "example_flowLogs =
     [(''flow-log-default'',
       \<lparr>destination = toS3 (FlowLogsBucket ''networka1b2'' V5), logFormatDefinition = V5\<rparr>)]"

definition example_hub :: FourTierNetworkHub where
  "example_hub =
     \<lparr>hub_scope = scope_west, hub_id = ''hub'',
      hub_props = \<lparr>hub_availabilityZones = None,
                   hub_cidr = ProviderFor example_request,
                   hub_defaultTransitGatewayRouteTable = None,
                   hub_flowLogs = example_flowLogs,
                   hub_maxAzs = None\<rparr>,
      hub_spokes = []\<rparr>"

definition example_hub_24 :: FourTierNetworkHub where
  "example_hub_24 =
     example_hub\<lparr>hub_props :=
       (hub_props example_hub)\<lparr>hub_cidr := ProviderFor (example_request\<lparr>request_netmask := 24\<rparr>)\<rparr>\<rparr>"

definition controller_with_hub :: NetworkController where
  "controller_with_hub =
     example_controller
       \<lparr>priv_hubs := [''us-west-2'' \<mapsto> example_hub],
        priv_registeredAccounts := Set_add ''222222222222'' Set_new,
        priv_registeredRegions := Set_add ''us-west-2'' Set_new,
        addressManager := \<lparr>allocations = [example_request], manualCidrs = []\<rparr>\<rparr>"

definition example_spoke :: FourTierNetworkSpoke where
  "example_spoke =
     \<lparr>spoke_scope = scope_west, spoke_id = ''spoke'',
      spoke_props = \<lparr>spoke_availabilityZones = None,
                     spoke_cidr = ProviderFor \<lparr>request_scope = scope_west,
                                               request_id = ''spoke-c8b722'',
                                               request_netmask = 16\<rparr>,
                     spoke_flowLogs = example_flowLogs,
                     spoke_maxAzs = None\<rparr>\<rparr>"

definition controller_with_spoke :: NetworkController where
  "controller_with_spoke =
     controller_with_hub
       \<lparr>addressManager :=
          \<lparr>allocations = [example_request,
                          \<lparr>request_scope = scope_west, request_id = ''spoke-c8b722'',
                           request_netmask = 16\<rparr>],
           manualCidrs = []\<rparr>,
        priv_hubs := [''us-west-2'' \<mapsto> example_hub\<lparr>hub_spokes := [example_spoke]\<rparr>]\<rparr>"

definition example_ops :: "operation list" where
  "example_ops =
     [RegisterAccount ''111111111111'',
      AddHub scope_west ''hub'' no_hub_options,
      AddSpoke scope_west ''spoke'' no_options,
      RegisterRegion ''us-east-1'',
      RegisterAccount ''${Token[AWS.AccountId.0]}'']"


section \<open>Basic facts\<close>

lemma list_of_dlist_Set_add:
  "list_of_dlist (Set_add x s) =
     (if x \<in> set (list_of_dlist s) then list_of_dlist s else list_of_dlist s @ [x])"
  by (simp add: Set_add_def distinct_remdups_id)

lemma list_of_dlist_Set_new: "list_of_dlist (Set_new :: 'a dlist) = []"
  by (simp add: Set_new_def)

subsection \<open>What the registration calls change\<close>

lemma registerAccount_concrete:
  "\<not> isUnresolved a \<Longrightarrow> fst (registerAccount isUnresolved this a) = Inr ()"
  by (simp add: registerAccount_def)

lemma registerRegion_concrete:
  "\<not> isUnresolved r \<Longrightarrow> fst (registerRegion isUnresolved this r) = Inr ()"
  by (simp add: registerRegion_def)

lemma registerAccount_frame:
  "stack (snd (registerAccount isUnresolved this a)) = stack this"
  "priv_hubs (snd (registerAccount isUnresolved this a)) = priv_hubs this"
  "priv_registeredRegions (snd (registerAccount isUnresolved this a)) = priv_registeredRegions this"
  "defaultNetmask (snd (registerAccount isUnresolved this a)) = defaultNetmask this"
  "flowLogFormat (snd (registerAccount isUnresolved this a)) = flowLogFormat this"
  "addressManager (snd (registerAccount isUnresolved this a)) = addressManager this"
  "flowLogBucket (snd (registerAccount isUnresolved this a)) = flowLogBucket this"
  by (simp_all add: registerAccount_def)

lemma registerRegion_frame:
  "stack (snd (registerRegion isUnresolved this r)) = stack this"
  "priv_hubs (snd (registerRegion isUnresolved this r)) = priv_hubs this"
  "priv_registeredAccounts (snd (registerRegion isUnresolved this r)) = priv_registeredAccounts this"
  "defaultNetmask (snd (registerRegion isUnresolved this r)) = defaultNetmask this"
  "flowLogFormat (snd (registerRegion isUnresolved this r)) = flowLogFormat this"
  "addressManager (snd (registerRegion isUnresolved this r)) = addressManager this"
  "flowLogBucket (snd (registerRegion isUnresolved this r)) = flowLogBucket this"
  by (simp_all add: registerRegion_def)

subsection \<open>The outcomes of \<open>addHub\<close> and \<open>addSpoke\<close>\<close>

lemma addHub_unbound:
  "isUnresolved (account (stack_of scope)) \<or> isUnresolved (region (stack_of scope)) \<Longrightarrow>
     addHub isUnresolved this scope i options = (Inl UnboundEnvironmentError, this)"
  by (simp add: addHub_def)

lemma addHub_duplicate:
  "\<not> isUnresolved (account (stack_of scope)) \<Longrightarrow> \<not> isUnresolved (region (stack_of scope)) \<Longrightarrow>
   js_in (region (stack_of scope)) (priv_hubs this) \<Longrightarrow>
     addHub isUnresolved this scope i options =
       (Inl (DuplicateHubError (region (stack_of scope))), this)"
  by (simp add: addHub_def)

lemma addHub_success:
  assumes "\<not> isUnresolved (account (stack_of scope))" "\<not> isUnresolved (region (stack_of scope))"
    "\<not> js_in (region (stack_of scope)) (priv_hubs this)"
  shows "addHub isUnresolved this scope i options =
     (let this2 = registered isUnresolved this scope;
          req = \<lparr>request_scope = scope, request_id = i,
                 request_netmask = nullish (netmask options) (defaultNetmask this)\<rparr>;
          hub = \<lparr>hub_scope = scope, hub_id = i,
                 hub_props = \<lparr>hub_availabilityZones = availabilityZones options,
                              hub_cidr = ProviderFor req,
                              hub_defaultTransitGatewayRouteTable = defaultTransitGatewayRouteTable options,
                              hub_flowLogs = defaultFlowLogs this,
                              hub_maxAzs = maxAzs options\<rparr>,
                 hub_spokes = []\<rparr>
      in (Inr hub,
          this2\<lparr>addressManager := (addressManager this)\<lparr>allocations := allocations (addressManager this) @ [req]\<rparr>,
                priv_hubs := (priv_hubs this)(region (stack_of scope) \<mapsto> hub)\<rparr>))"
proof -
  have k: "region (stack_of scope) \<noteq> ''__proto__''"
    using assms(3) by (auto simp: js_in_def Object_prototype_keys_def)
  obtain r1 t1 where a1: "registerAccount isUnresolved this (account (stack_of scope)) = (r1, t1)"
    by (cases "registerAccount isUnresolved this (account (stack_of scope))")
  obtain r2 t2 where a2: "registerRegion isUnresolved t1 (region (stack_of scope)) = (r2, t2)"
    by (cases "registerRegion isUnresolved t1 (region (stack_of scope))")
  have r1: "r1 = Inr ()" using registerAccount_concrete[of isUnresolved "account (stack_of scope)" this] assms(1) a1 by simp
  have r2: "r2 = Inr ()" using registerRegion_concrete[of isUnresolved "region (stack_of scope)" t1] assms(2) a2 by simp
  have t1: "t1 = snd (registerAccount isUnresolved this (account (stack_of scope)))" using a1 by simp
  have t2: "t2 = registered isUnresolved this scope" using a1 a2 by (simp add: registered_def)
  have f: "defaultNetmask t2 = defaultNetmask this" "addressManager t2 = addressManager this"
    "priv_hubs t2 = priv_hubs this" "flowLogBucket t2 = flowLogBucket this" "flowLogFormat t2 = flowLogFormat this"
    by (simp_all add: t2 registered_def registerAccount_frame registerRegion_frame)
  show ?thesis
    using assms k
    by (simp add: addHub_def a1 a2 r1 r2 Let_def getVpcConfiguration_def FourTierNetworkHub_new_def
        js_put_def defaultFlowLogs_def f t2[symmetric])
qed

lemma registered_frame:
  "stack (registered isUnresolved this scope) = stack this"
  "priv_hubs (registered isUnresolved this scope) = priv_hubs this"
  "defaultNetmask (registered isUnresolved this scope) = defaultNetmask this"
  "flowLogFormat (registered isUnresolved this scope) = flowLogFormat this"
  "addressManager (registered isUnresolved this scope) = addressManager this"
  "flowLogBucket (registered isUnresolved this scope) = flowLogBucket this"
  by (simp_all add: registered_def registerAccount_frame registerRegion_frame)

lemma addSpoke_unbound:
  "isUnresolved (account (stack_of scope)) \<or> isUnresolved (region (stack_of scope)) \<Longrightarrow>
     addSpoke isUnresolved this scope i options = (Inl UnboundEnvironmentError, this)"
  by (simp add: addSpoke_def)

lemma addSpoke_missing:
  "\<not> isUnresolved (account (stack_of scope)) \<Longrightarrow> \<not> isUnresolved (region (stack_of scope)) \<Longrightarrow>
   js_get (priv_hubs this) (region (stack_of scope)) = Undefined \<Longrightarrow>
     addSpoke isUnresolved this scope i options =
       (Inl (MissingHubError (region (stack_of scope))), this)"
  by (simp add: addSpoke_def)

lemma addSpoke_registers:
  assumes "\<not> isUnresolved (account (stack_of scope))" "\<not> isUnresolved (region (stack_of scope))"
    "js_get (priv_hubs this) (region (stack_of scope)) = v" "v \<noteq> Undefined"
  shows "addSpoke isUnresolved this scope i options =
     (let this2 = registered isUnresolved this scope;
          req = \<lparr>request_scope = scope, request_id = i @ ''-'' @ node_addr scope,
                 request_netmask = nullish (netmask options) (defaultNetmask this)\<rparr>;
          this3 = this2\<lparr>addressManager :=
                    (addressManager this)\<lparr>allocations := allocations (addressManager this) @ [req]\<rparr>\<rparr>
      in case v of
           Own h \<Rightarrow>
             (let s = \<lparr>spoke_scope = scope, spoke_id = i,
                       spoke_props = \<lparr>spoke_availabilityZones = availabilityZones options,
                                      spoke_cidr = ProviderFor req,
                                      spoke_flowLogs = defaultFlowLogs this,
                                      spoke_maxAzs = maxAzs options\<rparr>\<rparr>
              in (Inr s, this3\<lparr>priv_hubs :=
                           (priv_hubs this)(region (stack_of scope) \<mapsto> h\<lparr>hub_spokes := hub_spokes h @ [s]\<rparr>)\<rparr>))
         | _ \<Rightarrow> (Inl TypeError, this3))"
proof -
  obtain r1 t1 where a1: "registerAccount isUnresolved this (account (stack_of scope)) = (r1, t1)"
    by (cases "registerAccount isUnresolved this (account (stack_of scope))")
  obtain r2 t2 where a2: "registerRegion isUnresolved t1 (region (stack_of scope)) = (r2, t2)"
    by (cases "registerRegion isUnresolved t1 (region (stack_of scope))")
  have r1: "r1 = Inr ()"
    using registerAccount_concrete[of isUnresolved "account (stack_of scope)" this] assms(1) a1 by simp
  have r2: "r2 = Inr ()"
    using registerRegion_concrete[of isUnresolved "region (stack_of scope)" t1] assms(2) a2 by simp
  have t2: "t2 = registered isUnresolved this scope" using a1 a2 by (simp add: registered_def)
  have f: "defaultNetmask t2 = defaultNetmask this" "addressManager t2 = addressManager this"
    "priv_hubs t2 = priv_hubs this" "flowLogBucket t2 = flowLogBucket this" "flowLogFormat t2 = flowLogFormat this"
    by (simp_all add: t2 registered_frame)
  show ?thesis
    using assms
    by (cases v)
       (simp_all add: addSpoke_def a1 a2 r1 r2 Let_def getVpcConfiguration_def
          FourTierNetworkHub_addSpoke_def defaultFlowLogs_def f t2[symmetric])
qed

lemma js_get_Own: "js_get obj k = Own h \<longleftrightarrow> obj k = Some h"
  by (auto simp: js_get_def split: option.splits)

lemma js_get_Undefined: "js_get obj k = Undefined \<longleftrightarrow> obj k = None \<and> k \<notin> set Object_prototype_keys"
  by (auto simp: js_get_def split: option.splits)

lemma js_get_Inherited: "js_get obj k = Inherited k' \<longleftrightarrow> obj k = None \<and> k \<in> set Object_prototype_keys \<and> k' = k"
  by (auto simp: js_get_def split: option.splits)

subsection \<open>The registered lists\<close>

lemma toLowerCase_example: "toLowerCase ''NetworkA1B2'' = ''networka1b2''"
  by code_simp

lemma example_controller_new:
  "NetworkController_new tokenMarker ''NetworkA1B2'' example_scope ''network'' example_props
     = Inr example_controller"
  by (simp add: NetworkController_new_def example_scope_def example_props_def
      example_controller_def tokenMarker_def nullish_def toLowerCase_example)

lemma registeredAccounts_Set_add:
  "registeredAccounts (this\<lparr>priv_registeredAccounts := Set_add a (priv_registeredAccounts this)\<rparr>) =
     (if a \<in> set (registeredAccounts this) then registeredAccounts this else registeredAccounts this @ [a])"
  by (simp add: registeredAccounts_def Array_from_def list_of_dlist_Set_add)

lemma distinct_registeredAccounts: "distinct (registeredAccounts this)"
  by (simp add: registeredAccounts_def Array_from_def)

lemma count_list_distinct: "distinct xs \<Longrightarrow> x \<in> set xs \<Longrightarrow> count_list xs x = 1"
  by (induction xs) auto

lemma registeredAccounts_example: "registeredAccounts example_controller = []"
  by (simp add: registeredAccounts_def Array_from_def example_controller_def list_of_dlist_Set_new)

lemma registeredRegions_Set_add:
  "registeredRegions (this\<lparr>priv_registeredRegions := Set_add a (priv_registeredRegions this)\<rparr>) =
     (if a \<in> set (registeredRegions this) then registeredRegions this else registeredRegions this @ [a])"
  by (simp add: registeredRegions_def Array_from_def list_of_dlist_Set_add)

lemma registered_lists_other [simp]:
  "registeredRegions (this\<lparr>priv_registeredAccounts := x\<rparr>) = registeredRegions this"
  "registeredAccounts (this\<lparr>priv_registeredRegions := y\<rparr>) = registeredAccounts this"
  "registeredAccounts (this\<lparr>addressManager := am\<rparr>) = registeredAccounts this"
  "registeredRegions (this\<lparr>addressManager := am\<rparr>) = registeredRegions this"
  "registeredAccounts (this\<lparr>priv_hubs := hs\<rparr>) = registeredAccounts this"
  "registeredRegions (this\<lparr>priv_hubs := hs\<rparr>) = registeredRegions this"
  by (simp_all add: registeredAccounts_def registeredRegions_def)

subsection \<open>Every call keeps the invariants\<close>

lemma tracker_ok_registerAccount:
  "tracker_ok isUnresolved this \<Longrightarrow> tracker_ok isUnresolved (snd (registerAccount isUnresolved this a))"
  by (auto simp: tracker_ok_def registerAccount_def registeredAccounts_Set_add)

lemma tracker_ok_registerRegion:
  "tracker_ok isUnresolved this \<Longrightarrow> tracker_ok isUnresolved (snd (registerRegion isUnresolved this r))"
  by (auto simp: tracker_ok_def registerRegion_def registeredRegions_Set_add)

lemma tracker_ok_registered:
  "tracker_ok isUnresolved this \<Longrightarrow> tracker_ok isUnresolved (registered isUnresolved this scope)"
  by (simp add: registered_def tracker_ok_registerAccount tracker_ok_registerRegion)

lemma tracker_ok_update [simp]:
  "tracker_ok isUnresolved (this\<lparr>addressManager := am\<rparr>) = tracker_ok isUnresolved this"
  "tracker_ok isUnresolved (this\<lparr>priv_hubs := hs\<rparr>) = tracker_ok isUnresolved this"
  by (simp_all add: tracker_ok_def)

text \<open>The state that a call of \<open>addHub\<close> or \<open>addSpoke\<close> leaves, whatever its outcome.\<close>

lemma addHub_state:
  "snd (addHub isUnresolved this scope i options) = this
   \<or> (\<not> js_in (region (stack_of scope)) (priv_hubs this)
      \<and> (\<exists>am h. hub_scope h = scope \<and>
            snd (addHub isUnresolved this scope i options) =
              (registered isUnresolved this scope)
                \<lparr>addressManager := am, priv_hubs := (priv_hubs this)(region (stack_of scope) \<mapsto> h)\<rparr>))"
proof (cases "isUnresolved (account (stack_of scope)) \<or> isUnresolved (region (stack_of scope))")
  case True
  then show ?thesis by (simp add: addHub_unbound)
next
  case False
  show ?thesis
  proof (cases "js_in (region (stack_of scope)) (priv_hubs this)")
    case True
    with False show ?thesis by (simp add: addHub_duplicate)
  next
    case nin: False
    obtain st where st: "st = snd (addHub isUnresolved this scope i options)" by simp
    have "\<exists>am h. hub_scope h = scope \<and> st =
              (registered isUnresolved this scope)
                \<lparr>addressManager := am, priv_hubs := (priv_hubs this)(region (stack_of scope) \<mapsto> h)\<rparr>"
      unfolding st using False nin
      by (simp add: addHub_success Let_def)
         (rule exI, rule exI, rule conjI[rotated], rule refl, simp)
    with nin st show ?thesis by blast
  qed
qed

lemma addSpoke_state:
  "snd (addSpoke isUnresolved this scope i options) = this
   \<or> (\<exists>am. snd (addSpoke isUnresolved this scope i options) =
              (registered isUnresolved this scope)\<lparr>addressManager := am\<rparr>)
   \<or> (\<exists>am h s. priv_hubs this (region (stack_of scope)) = Some h \<and>
         snd (addSpoke isUnresolved this scope i options) =
           (registered isUnresolved this scope)
             \<lparr>addressManager := am,
              priv_hubs := (priv_hubs this)(region (stack_of scope) \<mapsto> h\<lparr>hub_spokes := hub_spokes h @ [s]\<rparr>)\<rparr>)"
proof (cases "isUnresolved (account (stack_of scope)) \<or> isUnresolved (region (stack_of scope))")
  case True
  then show ?thesis by (simp add: addSpoke_unbound)
next
  case False
  show ?thesis
  proof (cases "js_get (priv_hubs this) (region (stack_of scope))")
    case Undefined
    with False show ?thesis by (simp add: addSpoke_missing)
  next
    case (Inherited k)
    obtain st where st: "st = snd (addSpoke isUnresolved this scope i options)" by simp
    have "\<exists>am. st = (registered isUnresolved this scope)\<lparr>addressManager := am\<rparr>"
      unfolding st using False Inherited
      by (simp add: addSpoke_registers[where v="Inherited k"] Let_def) (rule exI, rule refl)
    with st show ?thesis by blast
  next
    case (Own h)
    then have own: "priv_hubs this (region (stack_of scope)) = Some h" by (simp add: js_get_Own)
    obtain st where st: "st = snd (addSpoke isUnresolved this scope i options)" by simp
    have "\<exists>am s. st =
           (registered isUnresolved this scope)
             \<lparr>addressManager := am,
              priv_hubs := (priv_hubs this)(region (stack_of scope) \<mapsto> h\<lparr>hub_spokes := hub_spokes h @ [s]\<rparr>)\<rparr>"
      unfolding st using False Own
      by (simp add: addSpoke_registers[where v="Own h"] Let_def) (rule exI, rule exI, rule refl)
    with st own show ?thesis by blast
  qed
qed

lemma tracker_ok_exec:
  "tracker_ok isUnresolved this \<Longrightarrow> tracker_ok isUnresolved (exec isUnresolved this op)"
proof (cases op)
  case (AddHub scope i options)
  assume "tracker_ok isUnresolved this"
  then show ?thesis
    using addHub_state[of isUnresolved this scope i options] AddHub
    by (auto simp: tracker_ok_registered)
next
  case (AddSpoke scope i options)
  assume "tracker_ok isUnresolved this"
  then show ?thesis
    using addSpoke_state[of isUnresolved this scope i options] AddSpoke
    by (auto simp: tracker_ok_registered)
next
  case (RegisterAccount a)
  assume "tracker_ok isUnresolved this"
  then show ?thesis using RegisterAccount by (simp add: tracker_ok_registerAccount)
next
  case (RegisterRegion r)
  assume "tracker_ok isUnresolved this"
  then show ?thesis using RegisterRegion by (simp add: tracker_ok_registerRegion)
next
  case (RegisterCidr scope i cidr)
  assume "tracker_ok isUnresolved this"
  then show ?thesis using RegisterCidr by (simp add: registerCidr_def)
qed

lemma tracker_ok_run:
  "tracker_ok isUnresolved this \<Longrightarrow> tracker_ok isUnresolved (run isUnresolved this ops)"
  unfolding run_def
  by (induction ops arbitrary: this) (simp_all add: tracker_ok_exec)

lemma tracker_ok_new:
  "NetworkController_new isUnresolved u scope i props = Inr this \<Longrightarrow> tracker_ok isUnresolved this"
  by (auto simp: NetworkController_new_def Let_def tracker_ok_def registeredAccounts_def
      registeredRegions_def Array_from_def list_of_dlist_Set_new split: if_splits)

lemma js_in_iff: "js_in k obj \<longleftrightarrow> obj k \<noteq> None \<or> k \<in> set Object_prototype_keys"
  by (simp add: js_in_def)

lemma registry_ok_exec: "registry_ok this \<Longrightarrow> registry_ok (exec isUnresolved this op)"
proof (cases op)
  case (AddHub scope i options)
  assume "registry_ok this"
  then show ?thesis
    using addHub_state[of isUnresolved this scope i options] AddHub
    by (auto simp: registry_ok_def registered_frame js_in_iff hub_region_def split: if_splits)
next
  case (AddSpoke scope i options)
  assume "registry_ok this"
  then show ?thesis
    using addSpoke_state[of isUnresolved this scope i options] AddSpoke
    by (auto simp: registry_ok_def registered_frame hub_region_def split: if_splits)
next
  case (RegisterAccount a)
  assume "registry_ok this"
  then show ?thesis using RegisterAccount by (simp add: registry_ok_def registerAccount_frame)
next
  case (RegisterRegion r)
  assume "registry_ok this"
  then show ?thesis using RegisterRegion by (simp add: registry_ok_def registerRegion_frame)
next
  case (RegisterCidr scope i cidr)
  assume "registry_ok this"
  then show ?thesis using RegisterCidr by (simp add: registry_ok_def registerCidr_def)
qed

lemma registry_ok_run: "registry_ok this \<Longrightarrow> registry_ok (run isUnresolved this ops)"
  unfolding run_def
  by (induction ops arbitrary: this) (simp_all add: registry_ok_exec)

lemma registry_ok_new:
  "NetworkController_new isUnresolved u scope i props = Inr this \<Longrightarrow> registry_ok this"
  by (auto simp: NetworkController_new_def Let_def registry_ok_def split: if_splits)

lemma fixed_fields_exec: "fixed_fields (exec isUnresolved this op) = fixed_fields this"
proof (cases op)
  case (AddHub scope i options)
  then show ?thesis
    using addHub_state[of isUnresolved this scope i options]
    by (auto simp: fixed_fields_def registered_frame)
next
  case (AddSpoke scope i options)
  then show ?thesis
    using addSpoke_state[of isUnresolved this scope i options]
    by (auto simp: fixed_fields_def registered_frame)
next
  case (RegisterAccount a)
  then show ?thesis by (simp add: fixed_fields_def registerAccount_frame)
next
  case (RegisterRegion r)
  then show ?thesis by (simp add: fixed_fields_def registerRegion_frame)
next
  case (RegisterCidr scope i cidr)
  then show ?thesis by (simp add: fixed_fields_def registerCidr_def)
qed

lemma fixed_fields_run: "fixed_fields (run isUnresolved this ops) = fixed_fields this"
  unfolding run_def
  by (induction ops arbitrary: this) (simp_all add: fixed_fields_exec)

lemma holds_hub_exec: "holds_hub this r h \<Longrightarrow> holds_hub (exec isUnresolved this op) r h"
proof (cases op)
  case (AddHub scope i options)
  assume "holds_hub this r h"
  then show ?thesis
    using addHub_state[of isUnresolved this scope i options] AddHub
    by (auto simp: holds_hub_def js_in_iff split: option.splits if_splits)
next
  case (AddSpoke scope i options)
  assume "holds_hub this r h"
  then show ?thesis
    using addSpoke_state[of isUnresolved this scope i options] AddSpoke
    by (auto simp: holds_hub_def registered_frame same_hub_def split: option.splits if_splits)
next
  case (RegisterAccount a)
  assume "holds_hub this r h"
  then show ?thesis using RegisterAccount by (simp add: holds_hub_def registerAccount_frame)
next
  case (RegisterRegion r')
  assume "holds_hub this r h"
  then show ?thesis using RegisterRegion by (simp add: holds_hub_def registerRegion_frame)
next
  case (RegisterCidr scope i cidr)
  assume "holds_hub this r h"
  then show ?thesis using RegisterCidr by (simp add: holds_hub_def registerCidr_def)
qed

lemma holds_hub_run: "holds_hub this r h \<Longrightarrow> holds_hub (run isUnresolved this ops) r h"
  unfolding run_def
  by (induction ops arbitrary: this) (simp_all add: holds_hub_exec)

subsection \<open>What the outcome of a call tells about its arguments\<close>

lemma addHub_Inr:
  assumes "addHub isUnresolved this scope i options = (Inr hub, this')"
  shows "\<not> isUnresolved (account (stack_of scope))" "\<not> isUnresolved (region (stack_of scope))"
    "\<not> js_in (region (stack_of scope)) (priv_hubs this)"
proof -
  show a: "\<not> isUnresolved (account (stack_of scope))"
    using assms by (auto simp: addHub_unbound)
  show b: "\<not> isUnresolved (region (stack_of scope))"
    using assms by (auto simp: addHub_unbound)
  show "\<not> js_in (region (stack_of scope)) (priv_hubs this)"
    using assms a b by (auto simp: addHub_duplicate)
qed

lemma addHub_fails:
  "isUnresolved (account (stack_of scope)) \<or> isUnresolved (region (stack_of scope))
     \<or> js_in (region (stack_of scope)) (priv_hubs this) \<Longrightarrow>
   addHub isUnresolved this scope i options =
     (Inl (if isUnresolved (account (stack_of scope)) \<or> isUnresolved (region (stack_of scope))
           then UnboundEnvironmentError
           else DuplicateHubError (region (stack_of scope))), this)"
  by (cases "isUnresolved (account (stack_of scope)) \<or> isUnresolved (region (stack_of scope))")
     (simp_all add: addHub_unbound addHub_duplicate)

lemma addHub_Inl:
  assumes "fst (addHub isUnresolved this scope i options) = Inl e"
  shows "snd (addHub isUnresolved this scope i options) = this"
    and "e = UnboundEnvironmentError \<or> e = DuplicateHubError (region (stack_of scope))"
proof -
  have c: "isUnresolved (account (stack_of scope)) \<or> isUnresolved (region (stack_of scope))
        \<or> js_in (region (stack_of scope)) (priv_hubs this)"
  proof (rule ccontr)
    assume n: "\<not> ?thesis"
    then have "fst (addHub isUnresolved this scope i options) \<noteq> Inl e"
      by (simp add: addHub_success Let_def)
    with assms show False by simp
  qed
  show "snd (addHub isUnresolved this scope i options) = this"
    using c by (simp add: addHub_fails)
  show "e = UnboundEnvironmentError \<or> e = DuplicateHubError (region (stack_of scope))"
    using assms by (auto simp: addHub_fails[OF c] split: if_splits)
qed

lemma addSpoke_Inr:
  assumes "addSpoke isUnresolved this scope i options = (Inr spoke, this')"
  shows "\<not> isUnresolved (account (stack_of scope))" "\<not> isUnresolved (region (stack_of scope))"
    "\<exists>h. priv_hubs this (region (stack_of scope)) = Some h"
proof -
  show a: "\<not> isUnresolved (account (stack_of scope))"
    using assms by (auto simp: addSpoke_unbound)
  show b: "\<not> isUnresolved (region (stack_of scope))"
    using assms by (auto simp: addSpoke_unbound)
  show "\<exists>h. priv_hubs this (region (stack_of scope)) = Some h"
  proof (cases "js_get (priv_hubs this) (region (stack_of scope))")
    case Undefined
    with a b assms show ?thesis by (simp add: addSpoke_missing)
  next
    case (Inherited k)
    with a b assms show ?thesis by (simp add: addSpoke_registers[where v="Inherited k"] Let_def)
  next
    case (Own h)
    then show ?thesis by (simp add: js_get_Own)
  qed
qed

subsection \<open>The worked example, evaluated\<close>

lemmas example_defs =
  example_controller_def scope_west_def scope_west_token_def scope_eu_def scope_toString_def
  no_options_def no_hub_options_def hub_options_24_def example_request_def example_flowLogs_def
  example_hub_def controller_with_hub_def example_spoke_def tokenMarker_def
  IpAddressManager_new_def

lemma registered_example_west:
  "registered tokenMarker example_controller scope_west =
     example_controller
       \<lparr>priv_registeredAccounts := Set_add ''222222222222'' Set_new,
        priv_registeredRegions := Set_add ''us-west-2'' Set_new\<rparr>"
  by (simp add: registered_def registerAccount_def registerRegion_def registeredAccounts_def
      registeredRegions_def Array_from_def list_of_dlist_Set_new example_defs)

lemma addHub_example:
  "addHub tokenMarker example_controller scope_west ''hub'' no_hub_options
     = (Inr example_hub, controller_with_hub)"
proof -
  have "\<not> tokenMarker (account (stack_of scope_west))" "\<not> tokenMarker (region (stack_of scope_west))"
    "\<not> js_in (region (stack_of scope_west)) (priv_hubs example_controller)"
    by (simp_all add: example_defs js_in_def Object_prototype_keys_def)
  then show ?thesis
    by (simp add: addHub_success registered_example_west Let_def)
       (simp add: example_defs nullish_def defaultFlowLogs_def)
qed

lemma registered_lists_with_hub:
  "registeredAccounts controller_with_hub = [''222222222222'']"
  "registeredRegions controller_with_hub = [''us-west-2'']"
  by (simp_all add: example_defs registeredAccounts_def registeredRegions_def Array_from_def
      list_of_dlist_Set_add list_of_dlist_Set_new)

lemma registered_with_hub_west:
  "registered tokenMarker controller_with_hub scope_west = controller_with_hub"
proof -
  have "registerAccount tokenMarker controller_with_hub ''222222222222'' = (Inr (), controller_with_hub)"
    by (simp add: registerAccount_def registered_lists_with_hub)
  moreover have "registerRegion tokenMarker controller_with_hub ''us-west-2'' = (Inr (), controller_with_hub)"
    by (simp add: registerRegion_def registered_lists_with_hub)
  ultimately show ?thesis
    by (simp add: registered_def scope_west_def)
qed

lemma addSpoke_example:
  "addSpoke tokenMarker controller_with_hub scope_west ''spoke'' no_options =
     (Inr example_spoke,
      controller_with_hub
        \<lparr>addressManager := \<lparr>allocations = [example_request, \<lparr>request_scope = scope_west,
                                               request_id = ''spoke-c8b722'',
                                               request_netmask = 16\<rparr>], manualCidrs = []\<rparr>,
         priv_hubs := [''us-west-2'' \<mapsto> example_hub\<lparr>hub_spokes := [example_spoke]\<rparr>]\<rparr>)"
proof -
  have "\<not> tokenMarker (account (stack_of scope_west))" "\<not> tokenMarker (region (stack_of scope_west))"
    "js_get (priv_hubs controller_with_hub) (region (stack_of scope_west)) = Own example_hub"
    by (simp_all add: js_get_Own) (simp_all add: example_defs)
  then show ?thesis
    by (simp add: addSpoke_registers[where v="Own example_hub"] registered_with_hub_west Let_def)
       (simp add: example_defs nullish_def defaultFlowLogs_def)
qed

lemma addSpoke_example': 
  "addSpoke tokenMarker controller_with_hub scope_west ''spoke'' no_options =
     (Inr example_spoke, controller_with_spoke)"
  by (simp add: addSpoke_example controller_with_spoke_def)

lemma registered_lists_with_spoke:
  "registeredAccounts controller_with_spoke = [''222222222222'']"
  "registeredRegions controller_with_spoke = [''us-west-2'']"
  by (simp_all add: controller_with_spoke_def registered_lists_with_hub)

lemma stack_with_spoke:
  "stack controller_with_spoke = \<lparr>account = ''111111111111'', region = ''us-east-1''\<rparr>"
  by (simp add: controller_with_spoke_def controller_with_hub_def example_controller_def)

lemma run_example_ops: "run tokenMarker example_controller example_ops = controller_with_spoke"
proof -
  have 1: "registerAccount tokenMarker example_controller ''111111111111'' = (Inr (), example_controller)"
    by (simp add: registerAccount_def example_controller_def)
  have 2: "registerRegion tokenMarker controller_with_spoke ''us-east-1'' = (Inr (), controller_with_spoke)"
    by (simp add: registerRegion_def stack_with_spoke)
  have 3: "registerAccount tokenMarker controller_with_spoke ''${Token[AWS.AccountId.0]}''
             = (Inl SymbolicIdentifierError, controller_with_spoke)"
    by (simp add: registerAccount_def stack_with_spoke registered_lists_with_spoke tokenMarker_def)
  show ?thesis
    by (simp add: run_def example_ops_def 1 2 3 addHub_example addSpoke_example')
qed

lemma run_example_hub:
  "controller_with_hub = run tokenMarker example_controller [AddHub scope_west ''hub'' no_hub_options]"
  by (simp add: run_def addHub_example)

lemma addHub_example_24:
  "fst (addHub tokenMarker example_controller scope_west ''hub'' hub_options_24) = Inr example_hub_24"
proof -
  have "\<not> tokenMarker (account (stack_of scope_west))" "\<not> tokenMarker (region (stack_of scope_west))"
    "\<not> js_in (region (stack_of scope_west)) (priv_hubs example_controller)"
    by (simp_all add: example_defs js_in_def Object_prototype_keys_def)
  then show ?thesis
    by (simp add: addHub_success Let_def)
       (simp add: example_defs example_hub_24_def nullish_def defaultFlowLogs_def)
qed


section \<open>Construction\<close>

text \<open>
  C6: the construction of a controller fails with the unbound-environment error exactly
  when the account or the region of its stack is unresolved; it fails with no other
  error, and a constructed controller has a concrete account and a concrete region.
\<close>

theorem NetworkController_new_unbound:
  "((NetworkController_new isUnresolved uniqueId scope i props = Inl UnboundEnvironmentError)
      \<longleftrightarrow> (isUnresolved (account (stack_of scope)) \<or> isUnresolved (region (stack_of scope))))
   \<and> (\<forall>e. NetworkController_new isUnresolved uniqueId scope i props = Inl e
          \<longrightarrow> e = UnboundEnvironmentError)
   \<and> (\<forall>this. NetworkController_new isUnresolved uniqueId scope i props = Inr this
          \<longrightarrow> stack this = stack_of scope
              \<and> \<not> isUnresolved (account (stack this)) \<and> \<not> isUnresolved (region (stack this)))"
  by (auto simp: NetworkController_new_def Let_def)

theorem NetworkController_new_unbound_witness:
  "NetworkController_new tokenMarker ''NetworkA1B2'' example_scope ''network'' example_props
     = Inr example_controller
   \<and> stack example_controller = stack_of example_scope
   \<and> \<not> tokenMarker (account (stack example_controller))
   \<and> \<not> tokenMarker (region (stack example_controller))
   \<and> tokenMarker (account (stack_of scope_west_token))
   \<and> NetworkController_new tokenMarker ''NetworkA1B2'' scope_west_token ''network'' example_props
       = Inl UnboundEnvironmentError"
proof -
  have t: "tokenMarker (account (stack_of scope_west_token))"
    by (simp add: scope_west_token_def tokenMarker_def)
  show ?thesis
    using NetworkController_new_unbound
            [of tokenMarker "''NetworkA1B2''" example_scope "''network''" example_props]
          NetworkController_new_unbound
            [of tokenMarker "''NetworkA1B2''" scope_west_token "''network''" example_props]
          example_controller_new t
    by simp
qed


section \<open>Account and region registration\<close>

text \<open>
  C4: \<open>registerAccount\<close> is idempotent for concrete identifiers. For every concrete
  account identifier other than the controller's own account, and from any state of the
  controller, the first call returns, the second call returns and changes nothing, and
  \<open>registeredAccounts\<close> then holds the identifier exactly once.
\<close>

theorem registerAccount_idempotent:
  assumes "\<not> isUnresolved a" and "a \<noteq> account (stack this)"
  shows "fst (registerAccount isUnresolved this a) = Inr ()
         \<and> registerAccount isUnresolved (snd (registerAccount isUnresolved this a)) a
           = (Inr (), snd (registerAccount isUnresolved this a))
         \<and> count_list (registeredAccounts (snd (registerAccount isUnresolved this a))) a = 1"
  using assms
  by (auto simp: registerAccount_def registeredAccounts_Set_add count_list_distinct distinct_registeredAccounts)

theorem registerAccount_idempotent_witness:
  "\<not> tokenMarker ''222222222222'' \<and> ''222222222222'' \<noteq> account (stack example_controller)
   \<and> fst (registerAccount tokenMarker example_controller ''222222222222'') = Inr ()
   \<and> registerAccount tokenMarker
        (snd (registerAccount tokenMarker example_controller ''222222222222'')) ''222222222222''
      = (Inr (), snd (registerAccount tokenMarker example_controller ''222222222222''))
   \<and> registeredAccounts (snd (registerAccount tokenMarker example_controller ''222222222222''))
      = [''222222222222'']"
proof -
  have h1: "\<not> tokenMarker ''222222222222''" by (simp add: tokenMarker_def)
  have h2: "''222222222222'' \<noteq> account (stack example_controller)"
    by (simp add: example_controller_def)
  have e: "registeredAccounts (snd (registerAccount tokenMarker example_controller ''222222222222''))
      = [''222222222222'']"
    using h1 h2 by (simp add: registerAccount_def registeredAccounts_Set_add registeredAccounts_example)
  show ?thesis
    using registerAccount_idempotent[of tokenMarker "''222222222222''" example_controller] h1 h2 e
    by simp
qed

text \<open>
  C5: for an unresolved account identifier that is neither the controller's own account
  nor already registered, \<open>registerAccount\<close> throws the symbolic-identifier error and
  leaves the controller, and so \<open>registeredAccounts\<close>, exactly as it was.
\<close>

theorem registerAccount_symbolic:
  assumes "isUnresolved a" and "a \<noteq> account (stack this)"
    and "a \<notin> set (registeredAccounts this)"
  shows "registerAccount isUnresolved this a = (Inl SymbolicIdentifierError, this)
         \<and> registeredAccounts (snd (registerAccount isUnresolved this a)) = registeredAccounts this"
  using assms by (simp add: registerAccount_def)

theorem registerAccount_symbolic_witness:
  "tokenMarker ''${Token[AWS.AccountId.0]}''
   \<and> ''${Token[AWS.AccountId.0]}'' \<noteq> account (stack example_controller)
   \<and> ''${Token[AWS.AccountId.0]}'' \<notin> set (registeredAccounts example_controller)
   \<and> registerAccount tokenMarker example_controller ''${Token[AWS.AccountId.0]}''
       = (Inl SymbolicIdentifierError, example_controller)"
proof -
  have h1: "tokenMarker ''${Token[AWS.AccountId.0]}''" by (simp add: tokenMarker_def)
  have h2: "''${Token[AWS.AccountId.0]}'' \<noteq> account (stack example_controller)"
    by (simp add: example_controller_def)
  have h3: "''${Token[AWS.AccountId.0]}'' \<notin> set (registeredAccounts example_controller)"
    by (simp add: registeredAccounts_example)
  show ?thesis
    using registerAccount_symbolic[of tokenMarker "''${Token[AWS.AccountId.0]}''" example_controller]
      h1 h2 h3
    by simp
qed

text \<open>
  C3: in every state that a constructed controller reaches by any sequence of \<open>addHub\<close>,
  \<open>addSpoke\<close>, \<open>registerAccount\<close>, \<open>registerRegion\<close> and \<open>registerCidr\<close> calls, returned
  or thrown, \<open>registeredAccounts\<close> does not contain the controller's own account,
  \<open>registeredRegions\<close> does not contain its own region, and neither contains an
  unresolved identifier.
\<close>

theorem tracker_invariant:
  assumes "NetworkController_new isUnresolved uniqueId scope i props = Inr c0"
  shows "stack (run isUnresolved c0 ops) = stack_of scope
         \<and> account (stack_of scope) \<notin> set (registeredAccounts (run isUnresolved c0 ops))
         \<and> region (stack_of scope) \<notin> set (registeredRegions (run isUnresolved c0 ops))
         \<and> (\<forall>a \<in> set (registeredAccounts (run isUnresolved c0 ops)). \<not> isUnresolved a)
         \<and> (\<forall>r \<in> set (registeredRegions (run isUnresolved c0 ops)). \<not> isUnresolved r)"
proof -
  have "tracker_ok isUnresolved (run isUnresolved c0 ops)"
    using tracker_ok_new[OF assms] by (rule tracker_ok_run)
  moreover have "fixed_fields (run isUnresolved c0 ops) = fixed_fields c0"
    by (rule fixed_fields_run)
  moreover have "stack c0 = stack_of scope"
    using assms by (auto simp: NetworkController_new_def Let_def split: if_splits)
  ultimately show ?thesis
    by (simp add: tracker_ok_def fixed_fields_def)
qed

theorem tracker_invariant_witness:
  "NetworkController_new tokenMarker ''NetworkA1B2'' example_scope ''network'' example_props
     = Inr example_controller
   \<and> registeredAccounts (run tokenMarker example_controller example_ops) = [''222222222222'']
   \<and> registeredRegions (run tokenMarker example_controller example_ops) = [''us-west-2'']
   \<and> account (stack_of example_scope) \<notin> set (registeredAccounts (run tokenMarker example_controller example_ops))
   \<and> region (stack_of example_scope) \<notin> set (registeredRegions (run tokenMarker example_controller example_ops))
   \<and> \<not> tokenMarker ''222222222222'' \<and> \<not> tokenMarker ''us-west-2''"
  using tracker_invariant[OF example_controller_new, of example_ops] example_controller_new
  by (simp add: run_example_ops registered_lists_with_spoke)


section \<open>Adding a hub\<close>

text \<open>
  C1 (as amended): after a successful \<open>addHub\<close> for region R, and after any further
  sequence of calls on the controller, an \<open>addHub\<close> whose scope resolves to region R
  fails: with the duplicate-hub error when the account of the scope is concrete, and with
  the unbound-environment error when that account is unresolved. Either way the
  controller is left as it was, and the registry still maps R to the original hub (the
  same scope, identifier and properties). Every failed \<open>addHub\<close> leaves the controller,
  and so the hubs map, unchanged.
\<close>

theorem addHub_duplicate_region:
  assumes "addHub isUnresolved this scope i options = (Inr hub, this1)"
    and "this2 = run isUnresolved this1 ops"
    and "region (stack_of scope2) = region (stack_of scope)"
  shows "priv_hubs this1 (region (stack_of scope)) = Some hub
         \<and> addHub isUnresolved this2 scope2 i2 options2 =
             (Inl (if isUnresolved (account (stack_of scope2)) then UnboundEnvironmentError
                   else DuplicateHubError (region (stack_of scope))), this2)
         \<and> (\<exists>h. priv_hubs this2 (region (stack_of scope)) = Some h
                \<and> hub_scope h = hub_scope hub \<and> hub_id h = hub_id hub \<and> hub_props h = hub_props hub)
         \<and> (fst (addHub isUnresolved c s j options3) = Inl e
              \<longrightarrow> snd (addHub isUnresolved c s j options3) = c)"
proof -
  note ok = addHub_Inr[OF assms(1)]
  have h1: "priv_hubs this1 (region (stack_of scope)) = Some hub"
    using assms(1) ok by (auto simp: addHub_success Let_def)
  then have "holds_hub this1 (region (stack_of scope)) hub"
    by (simp add: holds_hub_def same_hub_def)
  then have "holds_hub this2 (region (stack_of scope)) hub"
    unfolding assms(2) by (rule holds_hub_run)
  then obtain h where h: "priv_hubs this2 (region (stack_of scope)) = Some h" "same_hub hub h"
    by (auto simp: holds_hub_def split: option.splits)
  then have "js_in (region (stack_of scope2)) (priv_hubs this2)"
    by (simp add: js_in_def assms(3))
  then have "addHub isUnresolved this2 scope2 i2 options2 =
       (Inl (if isUnresolved (account (stack_of scope2)) then UnboundEnvironmentError
             else DuplicateHubError (region (stack_of scope))), this2)"
    using ok(2) assms(3) by (auto simp: addHub_unbound addHub_duplicate)
  with h h1 show ?thesis
    using addHub_Inl(1)[of isUnresolved c s j options3 e]
    by (auto simp: same_hub_def)
qed

theorem addHub_duplicate_region_witness:
  "addHub tokenMarker example_controller scope_west ''hub'' no_hub_options
     = (Inr example_hub, controller_with_hub)
   \<and> controller_with_spoke
       = run tokenMarker controller_with_hub [AddSpoke scope_west ''spoke'' no_options]
   \<and> region (stack_of scope_west_token) = region (stack_of scope_west)
   \<and> addHub tokenMarker controller_with_spoke scope_west ''hub2'' no_hub_options
       = (Inl (DuplicateHubError ''us-west-2''), controller_with_spoke)
   \<and> addHub tokenMarker controller_with_spoke scope_west_token ''hub2'' no_hub_options
       = (Inl UnboundEnvironmentError, controller_with_spoke)
   \<and> priv_hubs controller_with_hub ''us-west-2'' = Some example_hub
   \<and> priv_hubs controller_with_spoke ''us-west-2'' = Some (example_hub\<lparr>hub_spokes := [example_spoke]\<rparr>)"
proof -
  have r: "controller_with_spoke
       = run tokenMarker controller_with_hub [AddSpoke scope_west ''spoke'' no_options]"
    by (simp add: run_def addSpoke_example')
  have e: "region (stack_of scope_west) = region (stack_of scope_west)"
    "region (stack_of scope_west_token) = region (stack_of scope_west)"
    by (simp_all add: scope_west_def scope_west_token_def)
  have f: "fst (addHub tokenMarker controller_with_spoke scope_west_token ''hub2'' no_hub_options)
             = Inl UnboundEnvironmentError"
    by (simp add: addHub_unbound scope_west_token_def tokenMarker_def)
  have t: "tokenMarker (account (stack_of scope_west_token))"
    "\<not> tokenMarker (account (stack_of scope_west))"
    "region (stack_of scope_west) = ''us-west-2''"
    by (simp_all add: scope_west_def scope_west_token_def tokenMarker_def)
  have p: "priv_hubs controller_with_spoke ''us-west-2'' = Some (example_hub\<lparr>hub_spokes := [example_spoke]\<rparr>)"
    by (simp add: controller_with_spoke_def)
  have a: "addHub tokenMarker controller_with_spoke scope_west ''hub2'' no_hub_options
       = (Inl (DuplicateHubError ''us-west-2''), controller_with_spoke)"
    and ph: "priv_hubs controller_with_hub ''us-west-2'' = Some example_hub"
    using addHub_duplicate_region[OF addHub_example r e(1),
            of "''hub2''" no_hub_options controller_with_spoke scope_west_token "''hub2''"
               no_hub_options UnboundEnvironmentError] t
    by simp_all
  have b: "addHub tokenMarker controller_with_spoke scope_west_token ''hub2'' no_hub_options
       = (Inl UnboundEnvironmentError, controller_with_spoke)"
    using addHub_duplicate_region[OF addHub_example r e(2),
            of "''hub2''" no_hub_options controller_with_spoke scope_west_token "''hub2''"
               no_hub_options UnboundEnvironmentError] t f
    by simp
  from addHub_example r e(2) a b ph p show ?thesis by blast
qed

text \<open>
  The claim as stated fails for a scope in region R whose account is a token: the
  environment check comes first, and the call fails with the unbound-environment error.
\<close>

theorem addHub_duplicate_region_counterexample:
  "addHub tokenMarker example_controller scope_west ''hub'' no_hub_options
     = (Inr example_hub, controller_with_hub)
   \<and> region (stack_of scope_west_token) = region (stack_of scope_west)
   \<and> fst (addHub tokenMarker controller_with_hub scope_west_token ''hub2'' no_hub_options)
       = Inl UnboundEnvironmentError
   \<and> fst (addHub tokenMarker controller_with_hub scope_west_token ''hub2'' no_hub_options)
       \<noteq> Inl (DuplicateHubError ''us-west-2'')"
proof -
  have t: "tokenMarker (account (stack_of scope_west_token))"
    by (simp add: scope_west_token_def tokenMarker_def)
  have e: "region (stack_of scope_west_token) = region (stack_of scope_west)"
    by (simp add: scope_west_def scope_west_token_def)
  show ?thesis
    using t e by (simp add: addHub_example addHub_unbound)
qed

text \<open>
  C7: a successful \<open>addHub\<close> makes exactly one allocation request, for its scope and
  identifier, whose netmask is \<open>options.netmask\<close> when the caller supplies one and the
  controller's \<open>defaultNetmask\<close> otherwise.
\<close>

theorem addHub_netmask:
  assumes "addHub isUnresolved this scope i options = (Inr hub, this')"
  shows "allocations (addressManager this') =
           allocations (addressManager this) @
             [\<lparr>request_scope = scope, request_id = i,
               request_netmask = (case netmask options of Some n \<Rightarrow> n | None \<Rightarrow> defaultNetmask this)\<rparr>]"
  using assms addHub_Inr[OF assms]
  by (auto simp: addHub_success Let_def nullish_def)

theorem addHub_netmask_witness:
  "addHub tokenMarker example_controller scope_west ''hub'' hub_options_24 =
     (Inr example_hub_24, snd (addHub tokenMarker example_controller scope_west ''hub'' hub_options_24))
   \<and> allocations (addressManager
        (snd (addHub tokenMarker example_controller scope_west ''hub'' hub_options_24)))
       = [\<lparr>request_scope = scope_west, request_id = ''hub'', request_netmask = 24\<rparr>]
   \<and> addHub tokenMarker example_controller scope_west ''hub'' no_hub_options
       = (Inr example_hub, controller_with_hub)
   \<and> allocations (addressManager controller_with_hub)
       = [\<lparr>request_scope = scope_west, request_id = ''hub'', request_netmask = 16\<rparr>]"
proof -
  have h: "addHub tokenMarker example_controller scope_west ''hub'' hub_options_24 =
     (Inr example_hub_24, snd (addHub tokenMarker example_controller scope_west ''hub'' hub_options_24))"
    using addHub_example_24 by (simp add: prod_eq_iff)
  show ?thesis
    using addHub_netmask[OF h] addHub_netmask[OF addHub_example] h addHub_example
    by (simp add: example_controller_def IpAddressManager_new_def hub_options_24_def no_hub_options_def)
qed


section \<open>Adding a spoke\<close>

text \<open>
  C2 (as amended): for a region R that has no hub and is not a property name of
  \<open>Object.prototype\<close>, \<open>addSpoke\<close> with a scope resolving to R fails with the
  missing-hub error when the account and the region of the scope are concrete, and with
  the unbound-environment error otherwise. In both cases the controller is left as it
  was: no address range is requested and no account or region is registered.
\<close>

theorem addSpoke_missing_hub:
  assumes "priv_hubs this (region (stack_of scope)) = None"
    and "region (stack_of scope) \<notin> set Object_prototype_keys"
  shows "addSpoke isUnresolved this scope i options =
           (Inl (if isUnresolved (account (stack_of scope)) \<or> isUnresolved (region (stack_of scope))
                 then UnboundEnvironmentError
                 else MissingHubError (region (stack_of scope))), this)"
  using assms by (auto simp: addSpoke_unbound addSpoke_missing js_get_Undefined)

theorem addSpoke_missing_hub_witness:
  "priv_hubs example_controller (region (stack_of scope_eu)) = None
   \<and> region (stack_of scope_eu) \<notin> set Object_prototype_keys
   \<and> addSpoke tokenMarker example_controller scope_eu ''spoke2'' no_options
       = (Inl (MissingHubError ''eu-west-1''), example_controller)
   \<and> priv_hubs example_controller (region (stack_of scope_west_token)) = None
   \<and> addSpoke tokenMarker example_controller scope_west_token ''spoke2'' no_options
       = (Inl UnboundEnvironmentError, example_controller)"
proof -
  have a: "priv_hubs example_controller (region (stack_of scope_eu)) = None"
    "priv_hubs example_controller (region (stack_of scope_west_token)) = None"
    by (simp_all add: example_controller_def)
  have b: "region (stack_of scope_eu) \<notin> set Object_prototype_keys"
    "region (stack_of scope_west_token) \<notin> set Object_prototype_keys"
    by (simp_all add: scope_eu_def scope_west_token_def Object_prototype_keys_def)
  show ?thesis
    using addSpoke_missing_hub[OF a(1) b(1), of tokenMarker "''spoke2''" no_options]
          addSpoke_missing_hub[OF a(2) b(2), of tokenMarker "''spoke2''" no_options] a b
    by (simp add: scope_eu_def scope_west_token_def tokenMarker_def)
qed

text \<open>
  The claim as stated fails twice. For a scope whose account is a token the call fails
  with the unbound-environment error. For the region named \<open>toString\<close>, which has no
  hub, the indexed read finds the inherited method: the call registers the account and
  the region, requests an address range and then throws a \<open>TypeError\<close>.
\<close>

theorem addSpoke_missing_hub_counterexample:
  "priv_hubs example_controller (region (stack_of scope_west_token)) = None
   \<and> fst (addSpoke tokenMarker example_controller scope_west_token ''spoke'' no_options)
       = Inl UnboundEnvironmentError
   \<and> priv_hubs example_controller (region (stack_of scope_toString)) = None
   \<and> fst (addSpoke tokenMarker example_controller scope_toString ''spoke'' no_options)
       = Inl TypeError
   \<and> allocations (addressManager
        (snd (addSpoke tokenMarker example_controller scope_toString ''spoke'' no_options)))
       = [\<lparr>request_scope = scope_toString, request_id = ''spoke-c8e355'', request_netmask = 16\<rparr>]
   \<and> registeredAccounts (snd (addSpoke tokenMarker example_controller scope_toString ''spoke'' no_options))
       = [''222222222222'']
   \<and> registeredRegions (snd (addSpoke tokenMarker example_controller scope_toString ''spoke'' no_options))
       = [''toString'']"
proof -
  have t: "tokenMarker (account (stack_of scope_west_token))"
    by (simp add: scope_west_token_def tokenMarker_def)
  have c: "\<not> tokenMarker (account (stack_of scope_toString))"
    "\<not> tokenMarker (region (stack_of scope_toString))"
    "js_get (priv_hubs example_controller) (region (stack_of scope_toString)) = Inherited ''toString''"
    by (simp_all add: scope_toString_def tokenMarker_def js_get_def example_controller_def
        Object_prototype_keys_def)
  have r: "registered tokenMarker example_controller scope_toString =
     example_controller
       \<lparr>priv_registeredAccounts := Set_add ''222222222222'' Set_new,
        priv_registeredRegions := Set_add ''toString'' Set_new\<rparr>"
    by (simp add: registered_def registerAccount_def registerRegion_def registeredAccounts_def
      registeredRegions_def Array_from_def list_of_dlist_Set_new example_defs)
  have s: "addSpoke tokenMarker example_controller scope_toString ''spoke'' no_options =
      (Inl TypeError,
       example_controller
       \<lparr>priv_registeredAccounts := Set_add ''222222222222'' Set_new,
        priv_registeredRegions := Set_add ''toString'' Set_new,
        addressManager := \<lparr>allocations =
          [\<lparr>request_scope = scope_toString, request_id = ''spoke-c8e355'', request_netmask = 16\<rparr>],
          manualCidrs = []\<rparr>\<rparr>)"
    using c
    by (simp add: addSpoke_registers[where v="Inherited ''toString''"] Let_def r)
       (simp add: example_defs nullish_def)
  show ?thesis
    using t
    by (simp add: s addSpoke_unbound)
       (simp add: example_controller_def registeredAccounts_def registeredRegions_def Array_from_def
          list_of_dlist_Set_add list_of_dlist_Set_new)
qed

text \<open>
  C9: for every successful \<open>addSpoke\<close> on a controller reached from its construction,
  a hub is registered under the region to which the scope resolves, that hub lives in
  that region, and the returned spoke lives in the region of that hub; the hub then
  owns the spoke.
\<close>

theorem spoke_region_is_hub_region:
  assumes "NetworkController_new isUnresolved uniqueId scope0 i0 props = Inr c0"
    and "this = run isUnresolved c0 ops"
    and "addSpoke isUnresolved this scope i options = (Inr spoke, this')"
  shows "\<exists>h. priv_hubs this (region (stack_of scope)) = Some h
             \<and> hub_region h = region (stack_of scope)
             \<and> spoke_region spoke = hub_region h
             \<and> priv_hubs this' (region (stack_of scope)) = Some (h\<lparr>hub_spokes := hub_spokes h @ [spoke]\<rparr>)"
proof -
  have "registry_ok this"
    unfolding assms(2) using registry_ok_new[OF assms(1)] by (rule registry_ok_run)
  moreover from addSpoke_Inr[OF assms(3)] obtain h where
      h: "priv_hubs this (region (stack_of scope)) = Some h"
      and c: "\<not> isUnresolved (account (stack_of scope))" "\<not> isUnresolved (region (stack_of scope))"
    by auto
  moreover have "js_get (priv_hubs this) (region (stack_of scope)) = Own h"
    using h by (simp add: js_get_Own)
  ultimately show ?thesis
    using assms(3)
    by (auto simp: addSpoke_registers[where v="Own h"] Let_def registry_ok_def spoke_region_def)
qed

theorem spoke_region_is_hub_region_witness:
  "NetworkController_new tokenMarker ''NetworkA1B2'' example_scope ''network'' example_props
     = Inr example_controller
   \<and> controller_with_hub
       = run tokenMarker example_controller [AddHub scope_west ''hub'' no_hub_options]
   \<and> addSpoke tokenMarker controller_with_hub scope_west ''spoke'' no_options
       = (Inr example_spoke, controller_with_spoke)
   \<and> priv_hubs controller_with_hub (region (stack_of scope_west)) = Some example_hub
   \<and> hub_region example_hub = ''us-west-2''
   \<and> spoke_region example_spoke = ''us-west-2''"
proof -
  have p: "priv_hubs controller_with_hub (region (stack_of scope_west)) = Some example_hub"
    by (simp add: controller_with_hub_def scope_west_def)
  have w: "region (stack_of scope_west) = ''us-west-2''"
    by (simp add: scope_west_def)
  have "hub_region example_hub = ''us-west-2'' \<and> spoke_region example_spoke = ''us-west-2''"
    using spoke_region_is_hub_region[OF example_controller_new run_example_hub addSpoke_example'] p w
    by auto
  with example_controller_new run_example_hub addSpoke_example' p show ?thesis by blast
qed

text \<open>
  C8: every hub created by \<open>addHub\<close> and every spoke created by \<open>addSpoke\<close>, in any
  state the controller reaches, is given the one rule \<open>flow-log-default\<close>, whose
  destination is the controller's flow-log bucket and whose format is the controller's
  \<open>flowLogFormat\<close>, both as the constructor set them.
\<close>

theorem default_flow_log_rule:
  assumes "NetworkController_new isUnresolved uniqueId scope0 i0 props = Inr c0"
    and "this = run isUnresolved c0 ops"
  shows "(addHub isUnresolved this scope i options = (Inr hub, this')
            \<longrightarrow> hub_flowLogs (hub_props hub) =
                  [(''flow-log-default'',
                    \<lparr>destination = toS3 (flowLogBucket c0), logFormatDefinition = flowLogFormat c0\<rparr>)])
       \<and> (addSpoke isUnresolved this scope' i' options' = (Inr spoke, this'')
            \<longrightarrow> spoke_flowLogs (spoke_props spoke) =
                  [(''flow-log-default'',
                    \<lparr>destination = toS3 (flowLogBucket c0), logFormatDefinition = flowLogFormat c0\<rparr>)])
       \<and> flowLogFormat c0 = (case props_flowLogFormat props of Some f \<Rightarrow> f | None \<Rightarrow> V5)"
proof -
  have "fixed_fields this = fixed_fields c0"
    unfolding assms(2) by (rule fixed_fields_run)
  then have f: "flowLogBucket this = flowLogBucket c0" "flowLogFormat this = flowLogFormat c0"
    by (simp_all add: fixed_fields_def)
  have a: "addHub isUnresolved this scope i options = (Inr hub, this')
            \<Longrightarrow> hub_flowLogs (hub_props hub) = defaultFlowLogs this"
  proof -
    assume s: "addHub isUnresolved this scope i options = (Inr hub, this')"
    show ?thesis using s addHub_Inr[OF s] by (auto simp: addHub_success Let_def)
  qed
  have b: "addSpoke isUnresolved this scope' i' options' = (Inr spoke, this'')
            \<Longrightarrow> spoke_flowLogs (spoke_props spoke) = defaultFlowLogs this"
  proof -
    assume s: "addSpoke isUnresolved this scope' i' options' = (Inr spoke, this'')"
    from addSpoke_Inr[OF s] obtain h where
      h: "js_get (priv_hubs this) (region (stack_of scope')) = Own h"
      and c: "\<not> isUnresolved (account (stack_of scope'))" "\<not> isUnresolved (region (stack_of scope'))"
      by (auto simp: js_get_Own)
    show ?thesis using s c h by (auto simp: addSpoke_registers[where v="Own h"] Let_def)
  qed
  have c: "flowLogFormat c0 = (case props_flowLogFormat props of Some f \<Rightarrow> f | None \<Rightarrow> V5)"
    using assms(1) by (auto simp: NetworkController_new_def Let_def nullish_def split: if_splits)
  show ?thesis using a b c by (simp add: defaultFlowLogs_def f)
qed

theorem default_flow_log_rule_witness:
  "NetworkController_new tokenMarker ''NetworkA1B2'' example_scope ''network'' example_props
     = Inr example_controller
   \<and> addHub tokenMarker example_controller scope_west ''hub'' no_hub_options
       = (Inr example_hub, controller_with_hub)
   \<and> hub_flowLogs (hub_props example_hub) =
       [(''flow-log-default'',
         \<lparr>destination = toS3 (FlowLogsBucket ''networka1b2'' V5), logFormatDefinition = V5\<rparr>)]
   \<and> addSpoke tokenMarker controller_with_hub scope_west ''spoke'' no_options
       = (Inr example_spoke, controller_with_spoke)
   \<and> spoke_flowLogs (spoke_props example_spoke) =
       [(''flow-log-default'',
         \<lparr>destination = toS3 (FlowLogsBucket ''networka1b2'' V5), logFormatDefinition = V5\<rparr>)]"
proof -
  have r0: "example_controller = run tokenMarker example_controller []"
    by (simp add: run_def)
  show ?thesis
    using default_flow_log_rule[OF example_controller_new r0,
            of scope_west "''hub''" no_hub_options example_hub controller_with_hub
               scope_west "''spoke''" no_options example_spoke controller_with_spoke]
          default_flow_log_rule[OF example_controller_new run_example_hub,
            of scope_west "''hub''" no_hub_options example_hub controller_with_hub
               scope_west "''spoke''" no_options example_spoke controller_with_spoke]
          example_controller_new addHub_example addSpoke_example'
    by (simp add: example_controller_def)
qed


section \<open>Regions named like properties of the object prototype\<close>

text \<open>
  C10: for a region named like a property of \<open>Object.prototype\<close> (\<open>toString\<close>,
  \<open>constructor\<close>, ...) no hub is ever registered, and yet, for a scope with a concrete
  account that resolves to such a region, \<open>addHub\<close> fails with the duplicate-hub error
  and \<open>addSpoke\<close> does not fail with the missing-hub error: it throws a \<open>TypeError\<close>.
\<close>

theorem prototype_key_region:
  assumes "NetworkController_new isUnresolved uniqueId scope0 i0 props = Inr c0"
    and "this = run isUnresolved c0 ops"
    and "region (stack_of scope) \<in> set Object_prototype_keys"
    and "\<not> isUnresolved (account (stack_of scope))"
    and "\<not> isUnresolved (region (stack_of scope))"
  shows "priv_hubs this (region (stack_of scope)) = None
         \<and> addHub isUnresolved this scope i options =
             (Inl (DuplicateHubError (region (stack_of scope))), this)
         \<and> fst (addSpoke isUnresolved this scope i' options') = Inl TypeError
         \<and> fst (addSpoke isUnresolved this scope i' options') \<noteq> Inl (MissingHubError r)"
proof -
  have "registry_ok this"
    unfolding assms(2) using registry_ok_new[OF assms(1)] by (rule registry_ok_run)
  then have n: "priv_hubs this (region (stack_of scope)) = None"
    using assms(3) by (cases "priv_hubs this (region (stack_of scope))") (auto simp: registry_ok_def)
  have g: "js_get (priv_hubs this) (region (stack_of scope)) = Inherited (region (stack_of scope))"
    using n assms(3) by (simp add: js_get_Inherited)
  have "js_in (region (stack_of scope)) (priv_hubs this)"
    using assms(3) by (simp add: js_in_def)
  then have d: "addHub isUnresolved this scope i options =
             (Inl (DuplicateHubError (region (stack_of scope))), this)"
    using assms(4,5) by (simp add: addHub_duplicate)
  have t: "fst (addSpoke isUnresolved this scope i' options') = Inl TypeError"
    using assms(4,5) g
    by (simp add: addSpoke_registers[where v="Inherited (region (stack_of scope))"] Let_def)
  show ?thesis using n d t by simp
qed

theorem prototype_key_region_witness:
  "NetworkController_new tokenMarker ''NetworkA1B2'' example_scope ''network'' example_props
     = Inr example_controller
   \<and> ''toString'' \<in> set Object_prototype_keys \<and> ''constructor'' \<in> set Object_prototype_keys
   \<and> region (stack_of scope_toString) = ''toString''
   \<and> \<not> tokenMarker (account (stack_of scope_toString))
   \<and> \<not> tokenMarker (region (stack_of scope_toString))
   \<and> priv_hubs example_controller ''toString'' = None
   \<and> addHub tokenMarker example_controller scope_toString ''hub'' no_hub_options
       = (Inl (DuplicateHubError ''toString''), example_controller)
   \<and> fst (addSpoke tokenMarker example_controller scope_toString ''spoke'' no_options) = Inl TypeError
   \<and> fst (addSpoke tokenMarker example_controller scope_toString ''spoke'' no_options)
       \<noteq> Inl (MissingHubError ''toString'')"
proof -
  have r0: "example_controller = run tokenMarker example_controller []"
    by (simp add: run_def)
  have k: "region (stack_of scope_toString) \<in> set Object_prototype_keys"
    "''constructor'' \<in> set Object_prototype_keys"
    by (simp_all add: scope_toString_def Object_prototype_keys_def)
  have c: "\<not> tokenMarker (account (stack_of scope_toString))"
    "\<not> tokenMarker (region (stack_of scope_toString))"
    by (simp_all add: scope_toString_def tokenMarker_def)
  show ?thesis
    using prototype_key_region[OF example_controller_new r0 k(1) c,
            of "''hub''" no_hub_options "''spoke''" no_options "''toString''"]
          example_controller_new k c
    by (simp add: scope_toString_def)
qed

end
